theory Spec2Isabelle
  imports Main "HOL-Library.Sublist" "HOL-Library.Multiset" "HOL-Library.Char_ord"
    "HOL-Library.List_Lexorder" "HOL-Library.Product_Lexorder"
begin

section \<open>Python values used by Scrabble.py\<close>

text \<open>
  The module is Python 2 code (\<^verbatim>\<open>map\<close> and \<^verbatim>\<open>zip\<close> return lists). Its integers are
  unbounded, so indices and scores are \<^typ>\<open>int\<close>. Strings are byte strings, so a string is
  a \<^typ>\<open>string\<close> and a one-character string is a \<^typ>\<open>char\<close>. An uncaught exception is
  a value of type \<open>error\<close> on the left of a sum.
\<close>

datatype error = IndexError | KeyError | TypeError | AttributeError | UnboundLocalError

text \<open>\<^verbatim>\<open>xs[i]\<close>: a negative index counts from the end, an index out of range raises.\<close>

definition py_get :: "'a list \<Rightarrow> int \<Rightarrow> error + 'a" where
  "py_get xs i =
     (let n = int (length xs); k = (if i < 0 then n + i else i)
      in if 0 \<le> k \<and> k < n then Inr (xs ! nat k) else Inl IndexError)"

text \<open>\<^verbatim>\<open>xs[i] = v\<close>, with the same index rule.\<close>

definition py_set :: "'a list \<Rightarrow> int \<Rightarrow> 'a \<Rightarrow> error + 'a list" where
  "py_set xs i v =
     (let n = int (length xs); k = (if i < 0 then n + i else i)
      in if 0 \<le> k \<and> k < n then Inr (xs[nat k := v]) else Inl IndexError)"

section \<open>Squares and boards\<close>

text \<open>
  A square of a board is a one-character string (a letter, \<^verbatim>\<open>'.'\<close>, \<^verbatim>\<open>'*'\<close> or the border
  \<^verbatim>\<open>'|'\<close>) or an instance of \<^verbatim>\<open>Anchor\<close>, a subclass of \<^verbatim>\<open>set\<close>. The module compares an
  anchor with the global \<^verbatim>\<open>ANY\<close> by identity (\<^verbatim>\<open>sq is not ANY\<close>), so the object \<^verbatim>\<open>ANY\<close>
  is a constructor of its own and every other anchor object is an \<open>Anchor\<close> with its
  letters. A board is a list of rows; the rows of a board are distinct list objects.
\<close>

datatype square = Ch char | ANY | Anchor "char set"

type_synonym board = "square list list"

definition LETTERS :: "char list" where
  "LETTERS = ''ABCDEFGHIJKLMNOPQRSTUVWXYZ''"

text \<open>\<^verbatim>\<open>board[j][i]\<close> and \<^verbatim>\<open>board[j][i] = v\<close>.\<close>

definition get2 :: "'a list list \<Rightarrow> int \<Rightarrow> int \<Rightarrow> error + 'a" where
  "get2 b j i = (case py_get b j of Inl e \<Rightarrow> Inl e | Inr row \<Rightarrow> py_get row i)"

definition set2 :: "'a list list \<Rightarrow> int \<Rightarrow> int \<Rightarrow> 'a \<Rightarrow> error + 'a list list" where
  "set2 b j i v =
     (case py_get b j of
        Inl e \<Rightarrow> Inl e
      | Inr row \<Rightarrow> (case py_set row i v of
                     Inl e \<Rightarrow> Inl e
                   | Inr row' \<Rightarrow> py_set b j row'))"

definition is_letter :: "square \<Rightarrow> bool" where
  "is_letter sq = (case sq of Ch c \<Rightarrow> c \<in> set LETTERS | _ \<Rightarrow> False)"

definition is_set :: "square \<Rightarrow> bool" where
  "is_set sq = (case sq of Ch c \<Rightarrow> False | _ \<Rightarrow> True)"

definition is_empty :: "square \<Rightarrow> bool" where
  "is_empty sq = (sq = Ch CHR ''.'' \<or> sq = Ch CHR ''*'' \<or> is_set sq)"

section \<open>The dictionary\<close>

text \<open>\<^verbatim>\<open>str.upper\<close> on a byte string maps the ASCII letters a-z to A-Z.\<close>

definition upper_char :: "char \<Rightarrow> char" where
  "upper_char c =
     (case map_of (zip ''abcdefghijklmnopqrstuvwxyz'' ''ABCDEFGHIJKLMNOPQRSTUVWXYZ'') c of
        Some u \<Rightarrow> u
      | None \<Rightarrow> c)"

definition upper :: "string \<Rightarrow> string" where
  "upper s = map upper_char s"

text \<open>\<^verbatim>\<open>str.split()\<close> without argument: the maximal runs of non-whitespace bytes.\<close>

definition is_space :: "char \<Rightarrow> bool" where
  "is_space c = (c \<in> {CHR 0x09, CHR 0x0A, CHR 0x0B, CHR 0x0C, CHR 0x0D, CHR '' ''})"

fun split_aux :: "string \<Rightarrow> string \<Rightarrow> string list" where
  "split_aux cur [] = (if cur = [] then [] else [cur])"
| "split_aux cur (c # cs) =
     (if is_space c then (if cur = [] then split_aux [] cs else cur # split_aux [] cs)
      else split_aux (cur @ [c]) cs)"

definition split :: "string \<Rightarrow> string list" where
  "split s = split_aux [] s"

text \<open>\<^verbatim>\<open>prefixes(word)\<close>: \<^verbatim>\<open>[word[:i] for i in range(len(word))]\<close>.\<close>

definition prefixes_w :: "string \<Rightarrow> string list" where
  "prefixes_w word = map (\<lambda>i. take i word) [0..<length word]"

text \<open>
  \<^verbatim>\<open>readwordlist\<close>, applied to the text of the file: the loop adds each token to the word
  set and its prefixes to the prefix set.
\<close>

definition readwordlist_step :: "string \<Rightarrow> string set \<times> string set \<Rightarrow> string set \<times> string set" where
  "readwordlist_step word acc = (insert word (fst acc), snd acc \<union> set (prefixes_w word))"

definition readwordlist :: "string \<Rightarrow> string set \<times> string set" where
  "readwordlist text = fold readwordlist_step (split (upper text)) ({}, {})"

section \<open>Plays\<close>

type_synonym play = "int \<times> (int \<times> int) \<times> (int \<times> int) \<times> string"

definition ACROSS :: "int \<times> int" where "ACROSS = (1, 0)"
definition DOWN :: "int \<times> int" where "DOWN = (0, 1)"

text \<open>
  \<^verbatim>\<open>make_play\<close>: the loop writes \<^verbatim>\<open>board[j][i] = letter\<close> and steps. The board is the
  state of the loop; an index out of range raises.
\<close>

fun make_play_loop :: "string \<Rightarrow> int \<Rightarrow> int \<Rightarrow> int \<Rightarrow> int \<Rightarrow> board \<Rightarrow> error + board" where
  "make_play_loop [] i j di dj board = Inr board"
| "make_play_loop (letter # word) i j di dj board =
     (case set2 board j i (Ch letter) of
        Inl e \<Rightarrow> Inl e
      | Inr board' \<Rightarrow> make_play_loop word (i + di) (j + dj) di dj board')"

fun make_play :: "play \<Rightarrow> board \<Rightarrow> error + board" where
  "make_play (score, (i, j), (di, dj), word) board = make_play_loop word i j di dj board"

text \<open>
  \<^verbatim>\<open>transpose\<close>: \<^verbatim>\<open>map(list, zip(*matrix))\<close>. \<^verbatim>\<open>zip\<close> of no list is the empty list, and
  \<^verbatim>\<open>zip\<close> stops at the shortest of its arguments.
\<close>

definition transpose_m :: "'a list list \<Rightarrow> 'a list list" where
  "transpose_m matrix =
     (if matrix = [] then []
      else map (\<lambda>k. map (\<lambda>row. row ! k) matrix) [0..<Min (length ` set matrix)])"

definition rectangular :: "'a list list \<Rightarrow> bool" where
  "rectangular b = (\<forall>row \<in> set b. length row = length (hd b))"

text \<open>A coordinate pair \<open>(i, j)\<close>, column and row, that names a square of the board.\<close>

definition on_board :: "'a list list \<Rightarrow> int \<Rightarrow> int \<Rightarrow> bool" where
  "on_board b i j = (0 \<le> j \<and> j < int (length b) \<and> 0 \<le> i \<and> i < int (length (b ! nat j)))"

text \<open>A bordered board with the single letter A, used as a concrete input.\<close>

definition small_board :: board where
  "small_board = [[Ch CHR ''|'', Ch CHR ''|'', Ch CHR ''|''],
                  [Ch CHR ''|'', Ch CHR ''A'', Ch CHR ''|''],
                  [Ch CHR ''|'', Ch CHR ''|'', Ch CHR ''|'']]"


section \<open>Points and bonus squares\<close>

definition POINTS :: "char \<rightharpoonup> int" where
  "POINTS = map_of
     [(CHR ''A'', 1), (CHR ''B'', 3), (CHR ''C'', 3), (CHR ''D'', 2), (CHR ''E'', 1),
      (CHR ''F'', 4), (CHR ''G'', 2), (CHR ''H'', 4), (CHR ''I'', 1), (CHR ''J'', 8),
      (CHR ''K'', 5), (CHR ''L'', 1), (CHR ''M'', 3), (CHR ''N'', 1), (CHR ''O'', 1),
      (CHR ''P'', 3), (CHR ''Q'', 10), (CHR ''R'', 1), (CHR ''S'', 1), (CHR ''T'', 1),
      (CHR ''U'', 1), (CHR ''V'', 4), (CHR ''W'', 4), (CHR ''X'', 8), (CHR ''Y'', 4),
      (CHR ''Z'', 10), (CHR ''_'', 0)]"

text \<open>\<^verbatim>\<open>mirror\<close>: \<^verbatim>\<open>sequence + sequence[-2::-1]\<close>.\<close>

definition mirror :: "'a list \<Rightarrow> 'a list" where
  "mirror sequence = sequence @ rev (butlast sequence)"

definition bonus_template :: "string \<Rightarrow> string list" where
  "bonus_template quadrant = mirror (map mirror (split quadrant))"

definition WWF :: "string list" where
  "WWF = bonus_template
     (CHR 0x0A # ''|||||||||'' @ CHR 0x0A # ''|...3..;.'' @ CHR 0x0A # ''|..:..2..'' @
      CHR 0x0A # ''|.:..:...'' @ CHR 0x0A # ''|3..;...2'' @ CHR 0x0A # ''|..:...:.'' @
      CHR 0x0A # ''|.2...3..'' @ CHR 0x0A # ''|;...:...'' @ CHR 0x0A # ''|...:...*'' @
      [CHR 0x0A])"

definition BONUS :: "string list" where
  "BONUS = WWF"

definition DW :: char where "DW = CHR ''2''"
definition TW :: char where "TW = CHR ''3''"
definition DL :: char where "DL = CHR '':''"
definition TL :: char where "TL = CHR '';''"


section \<open>Scanning the board\<close>

text \<open>The character of a square that is a one-character string.\<close>

definition the_char :: "square \<Rightarrow> char" where
  "the_char sq = (case sq of Ch c \<Rightarrow> c | _ \<Rightarrow> CHR 0x00)"

text \<open>\<^verbatim>\<open>w.replace('.', L)\<close>.\<close>

definition replace_dot :: "string \<Rightarrow> char \<Rightarrow> string" where
  "replace_dot w L = map (\<lambda>c. if c = CHR ''.'' then L else c) w"

text \<open>\<^verbatim>\<open>neighbors\<close>: the squares to the north, south, east and west.\<close>

definition neighbors :: "board \<Rightarrow> int \<Rightarrow> int \<Rightarrow> error + square list" where
  "neighbors board i j =
     (case get2 board (j - 1) i of Inl e \<Rightarrow> Inl e | Inr N \<Rightarrow>
      case get2 board (j + 1) i of Inl e \<Rightarrow> Inl e | Inr S \<Rightarrow>
      case get2 board j (i + 1) of Inl e \<Rightarrow> Inl e | Inr E \<Rightarrow>
      case get2 board j (i - 1) of Inl e \<Rightarrow> Inl e | Inr W \<Rightarrow>
      Inr [N, S, E, W])"

text \<open>
  \<^verbatim>\<open>find_cross_word\<close>. The first loop runs \<^verbatim>\<open>j2\<close> over \<^verbatim>\<open>range(j, 0, -1)\<close> and leaves in
  \<^verbatim>\<open>j2\<close> the last value it took (none when the range is empty, and the \<^verbatim>\<open>return\<close> then
  raises); the second runs over \<^verbatim>\<open>range(j + 1, len(board))\<close>.
\<close>

fun cross_up :: "board \<Rightarrow> int \<Rightarrow> int list \<Rightarrow> int option \<Rightarrow> string \<Rightarrow> error + (int option \<times> string)" where
  "cross_up board i [] j2 w = Inr (j2, w)"
| "cross_up board i (j2' # js) j2 w =
     (case get2 board (j2' - 1) i of
        Inl e \<Rightarrow> Inl e
      | Inr sq2 \<Rightarrow>
          if is_letter sq2 then cross_up board i js (Some j2') (the_char sq2 # w)
          else Inr (Some j2', w))"

fun cross_down :: "board \<Rightarrow> int \<Rightarrow> int list \<Rightarrow> string \<Rightarrow> error + string" where
  "cross_down board i [] w = Inr w"
| "cross_down board i (j3 # js) w =
     (case get2 board j3 i of
        Inl e \<Rightarrow> Inl e
      | Inr sq3 \<Rightarrow>
          if is_letter sq3 then cross_down board i js (w @ [the_char sq3])
          else Inr w)"

definition find_cross_word :: "board \<Rightarrow> int \<Rightarrow> int \<Rightarrow> error + (int \<times> string)" where
  "find_cross_word board i j =
     (case get2 board j i of Inl e \<Rightarrow> Inl e | Inr sq \<Rightarrow>
      case cross_up board i (rev [1..j]) None (if is_letter sq then [the_char sq] else ''.'') of
        Inl e \<Rightarrow> Inl e
      | Inr (j2, w) \<Rightarrow>
      case cross_down board i [j + 1..int (length board) - 1] w of
        Inl e \<Rightarrow> Inl e
      | Inr w' \<Rightarrow>
      case j2 of None \<Rightarrow> Inl UnboundLocalError | Some j2' \<Rightarrow> Inr (j2', w'))"

section \<open>Scoring\<close>

text \<open>
  \<^verbatim>\<open>calculate_score\<close>. The loop keeps \<^verbatim>\<open>total\<close> (here \<open>tot\<close>), \<^verbatim>\<open>cross_total\<close> and
  \<^verbatim>\<open>word_multiplier\<close>. \<^verbatim>\<open>calculate_score\<close> calls \<^verbatim>\<open>cross_word_score\<close>, which calls
  \<^verbatim>\<open>calculate_score\<close> with the direction DOWN, where the test
  \<^verbatim>\<open>direction is not DOWN\<close> fails: the recursion has depth one. The loop takes the cross
  scoring as the parameter \<open>cross\<close>; the inner call gets a parameter that is never applied.
\<close>

fun score_loop ::
  "(char \<Rightarrow> int \<Rightarrow> int \<Rightarrow> error + int) \<Rightarrow> board \<Rightarrow> int \<times> int \<Rightarrow> int \<Rightarrow> int \<Rightarrow> int \<Rightarrow> string \<Rightarrow>
   int \<times> int \<times> int \<Rightarrow> error + int \<times> int \<times> int" where
  "score_loop cross board direction starti startj n [] acc = Inr acc"
| "score_loop cross board direction starti startj n (L # word) (tot, cross_total, word_multiplier) =
     (let i = starti + n * fst direction; j = startj + n * snd direction in
      case get2 board j i of Inl e \<Rightarrow> Inl e | Inr sq \<Rightarrow>
      case get2 BONUS j i of Inl e \<Rightarrow> Inl e | Inr b \<Rightarrow>
      let word_multiplier' = word_multiplier *
            (if is_letter sq then 1 else if b = TW then 3
             else if b = DW \<or> b = CHR ''*'' then 2 else 1);
          letter_mult = (if is_letter sq then 1 else if b = TL then 3
             else if b = DL then 2 else 1)
      in
      case POINTS L of None \<Rightarrow> Inl KeyError | Some p \<Rightarrow>
      let tot' = tot + p * letter_mult in
      if is_set sq \<and> sq \<noteq> ANY \<and> direction \<noteq> DOWN then
        (case cross L i j of
           Inl e \<Rightarrow> Inl e
         | Inr c \<Rightarrow> score_loop cross board direction starti startj (n + 1) word
               (tot', cross_total + c, word_multiplier'))
      else score_loop cross board direction starti startj (n + 1) word
               (tot', cross_total, word_multiplier'))"

definition score_with ::
  "(char \<Rightarrow> int \<Rightarrow> int \<Rightarrow> error + int) \<Rightarrow> board \<Rightarrow> int \<times> int \<Rightarrow> int \<times> int \<Rightarrow> string \<Rightarrow> error + int" where
  "score_with cross board pos direction word =
     (case score_loop cross board direction (fst pos) (snd pos) 0 word (0, 0, 1) of
        Inl e \<Rightarrow> Inl e
      | Inr (tot, cross_total, word_multiplier) \<Rightarrow> Inr (cross_total + word_multiplier * tot))"

definition cross_word_score :: "board \<Rightarrow> char \<Rightarrow> int \<times> int \<Rightarrow> int \<times> int \<Rightarrow> error + int" where
  "cross_word_score board L pos direction =
     (case find_cross_word board (fst pos) (snd pos) of
        Inl e \<Rightarrow> Inl e
      | Inr (j2, word) \<Rightarrow>
          score_with (\<lambda>L i j. Inl TypeError) board (fst pos, j2) DOWN (replace_dot word L))"

definition calculate_score :: "board \<Rightarrow> int \<times> int \<Rightarrow> int \<times> int \<Rightarrow> string \<Rightarrow> string \<Rightarrow> error + int" where
  "calculate_score board pos direction hand word =
     score_with
       (\<lambda>L i j. cross_word_score board L (i, j) (if direction = ACROSS then DOWN else ACROSS))
       board pos direction word"

section \<open>Anchors\<close>

text \<open>
  \<^verbatim>\<open>set_anchors(row, j, board)\<close> is called by \<^verbatim>\<open>horizontal_plays\<close> with \<^verbatim>\<open>row\<close> the list
  object \<^verbatim>\<open>board[j]\<close> (the slice \<^verbatim>\<open>board[1:-1]\<close> copies the outer list, not the rows), so
  the assignment \<^verbatim>\<open>row[i] = ...\<close> writes the square \<^verbatim>\<open>board[j][i]\<close>. The loop runs over
  the indices of \<^verbatim>\<open>row[1:-1]\<close>; the board is its state. \<open>W\<close> is the global \<^verbatim>\<open>WORDS\<close>.
\<close>

definition inner :: "'a list \<Rightarrow> int list" where
  "inner xs = [1..int (length xs) - 2]"

fun set_anchors_loop :: "string set \<Rightarrow> int \<Rightarrow> int list \<Rightarrow> board \<Rightarrow> error + board" where
  "set_anchors_loop W j [] board = Inr board"
| "set_anchors_loop W j (i # is) board =
     (case get2 board j i of Inl e \<Rightarrow> Inl e | Inr sq \<Rightarrow>
      case neighbors board i j of Inl e \<Rightarrow> Inl e | Inr neighbor_list \<Rightarrow>
      if sq = Ch CHR ''*'' \<or> (is_empty sq \<and> (\<exists>n \<in> set neighbor_list. is_letter n)) then
        if is_letter (neighbor_list ! 0) \<or> is_letter (neighbor_list ! 1) then
          (case find_cross_word board i j of Inl e \<Rightarrow> Inl e | Inr (j2, w) \<Rightarrow>
           case set2 board j i (Anchor (set (filter (\<lambda>L. replace_dot w L \<in> W) LETTERS))) of
             Inl e \<Rightarrow> Inl e
           | Inr board' \<Rightarrow> set_anchors_loop W j is board')
        else
          (case set2 board j i ANY of
             Inl e \<Rightarrow> Inl e
           | Inr board' \<Rightarrow> set_anchors_loop W j is board')
      else set_anchors_loop W j is board)"

definition set_anchors :: "string set \<Rightarrow> int \<Rightarrow> board \<Rightarrow> error + board" where
  "set_anchors W j board =
     (case py_get board j of
        Inl e \<Rightarrow> Inl e
      | Inr row \<Rightarrow> set_anchors_loop W j (inner row) board)"

section \<open>Prefixes\<close>

text \<open>\<^verbatim>\<open>xs[a:b]\<close> with Python's clamping of the bounds.\<close>

definition py_slice :: "'a list \<Rightarrow> int \<Rightarrow> int \<Rightarrow> 'a list" where
  "py_slice xs a b =
     (let n = int (length xs);
          a' = (if a < 0 then max (a + n) 0 else min a n);
          b' = (if b < 0 then max (b + n) 0 else min b n)
      in take (nat (b' - a')) (drop (nat a') xs))"

text \<open>\<^verbatim>\<open>''.join(squares)\<close>: an element that is not a string raises \<^verbatim>\<open>TypeError\<close>.\<close>

definition join :: "square list \<Rightarrow> error + string" where
  "join sqs = (if \<exists>sq \<in> set sqs. is_set sq then Inl TypeError else Inr (map the_char sqs))"

text \<open>The two \<^verbatim>\<open>while\<close> loops of \<^verbatim>\<open>legal_prefix\<close>.\<close>

function lp_letters :: "square list \<Rightarrow> int \<Rightarrow> error + int" where
  "lp_letters row start =
     (case py_get row (start - 1) of
        Inl e \<Rightarrow> Inl e
      | Inr sq \<Rightarrow> if is_letter sq then lp_letters row (start - 1) else Inr start)"
  by pat_completeness auto
termination
  by (relation "measure (\<lambda>(row, start). nat (start + int (length row)))")
     (auto simp: py_get_def Let_def split: if_splits)

declare lp_letters.simps [simp del]

function lp_empty :: "square list \<Rightarrow> int \<Rightarrow> error + int" where
  "lp_empty row start =
     (case py_get row (start - 1) of
        Inl e \<Rightarrow> Inl e
      | Inr sq \<Rightarrow> if is_empty sq \<and> \<not> is_set sq then lp_empty row (start - 1) else Inr start)"
  by pat_completeness auto
termination
  by (relation "measure (\<lambda>(row, start). nat (start + int (length row)))")
     (auto simp: py_get_def Let_def split: if_splits)

declare lp_empty.simps [simp del]

definition legal_prefix :: "int \<Rightarrow> square list \<Rightarrow> error + (string \<times> int)" where
  "legal_prefix i row =
     (case lp_letters row i of Inl e \<Rightarrow> Inl e | Inr start \<Rightarrow>
      if start < i then
        (case join (py_slice row start i) of
           Inl e \<Rightarrow> Inl e
         | Inr s \<Rightarrow> Inr (s, i - start))
      else
        (case lp_empty row start of
           Inl e \<Rightarrow> Inl e
         | Inr start' \<Rightarrow> Inr ('''', i - start')))"

text \<open>\<^verbatim>\<open>removed\<close>; \<^verbatim>\<open>letters.replace(L, '', 1)\<close> removes the first L.\<close>

definition removed :: "string \<Rightarrow> string \<Rightarrow> string" where
  "removed letters remove = fold remove1 remove letters"

text \<open>
  \<^verbatim>\<open>find_prefixes\<close> and the global \<^verbatim>\<open>HAND_PREFIXES_CACHE\<close>, a dictionary from a hand to the
  value stored for it (a set, or \<^verbatim>\<open>None\<close>). The recursive calls have a prefix that is not
  empty and pass on the set of the caller: they neither read nor write the cache, and they
  are \<open>find_prefixes_rec\<close>. \<open>P\<close> is the global \<^verbatim>\<open>PREFIXES\<close>. The parameter \<open>results\<close> is
  \<open>None\<close> for Python's \<^verbatim>\<open>None\<close>, on which \<^verbatim>\<open>results.add\<close> raises \<^verbatim>\<open>AttributeError\<close>.
\<close>

type_synonym cache = "string \<rightharpoonup> string set option"

function find_prefixes_rec :: "string set \<Rightarrow> string \<Rightarrow> string \<Rightarrow> string set \<Rightarrow> string set" where
  "find_prefixes_rec P hand pfx results =
     (if pfx \<in> P then
        fold (\<lambda>L r. find_prefixes_rec P (remove1 L hand) (pfx @ [L]) r) hand
          (insert pfx results)
      else results)"
  by pat_completeness auto
termination
  by (relation "measure (\<lambda>(P, hand, pfx, results). length hand)")
     (auto simp: length_remove1 intro!: diff_less length_pos_if_in_set)

declare find_prefixes_rec.simps [simp del]

definition find_prefixes ::
  "string set \<Rightarrow> cache \<Rightarrow> string \<Rightarrow> string \<Rightarrow> string set option \<Rightarrow>
   error + (string set option \<times> cache)" where
  "find_prefixes P cache hand pfx results =
     (if pfx = '''' \<and> cache hand \<noteq> None then Inr (the (cache hand), cache)
      else
        case (if pfx \<in> P then
                (case results of
                   None \<Rightarrow> Inl AttributeError
                 | Some r \<Rightarrow> Inr (Some (find_prefixes_rec P hand pfx r)))
              else Inr results) of
          Inl e \<Rightarrow> Inl e
        | Inr results' \<Rightarrow>
            Inr (results', if pfx = '''' then Map.empty(hand \<mapsto> results') else cache))"


section \<open>The name \<^verbatim>\<open>add_suffixes\<close>\<close>

text \<open>
  The module has two \<^verbatim>\<open>def\<close> statements for the name \<^verbatim>\<open>add_suffixes\<close>: the one at lines
  302-316 has the six parameters \<^verbatim>\<open>hand, pre, start, row, results, anchored\<close>, the one at line
  377 has the three parameters \<^verbatim>\<open>hand, prefix, results\<close>. Python runs the statements of a
  module in order when it is imported, and the second binds the name again: whenever a
  function of the module is called, \<^verbatim>\<open>add_suffixes\<close> is the function of line 377.
  \<^verbatim>\<open>row_plays\<close> calls it with five positional arguments and the keyword \<^verbatim>\<open>anchored\<close> (lines
  266 and 272). The arguments are evaluated (none of them raises), and the call raises
  \<^verbatim>\<open>TypeError\<close> before the body of the function runs. The function of lines 302-316 is
  never called.
\<close>



section \<open>Plays in a row, in the board and the best play\<close>

text \<open>
  A \<^verbatim>\<open>for\<close> loop over a Python set whose body adds elements to the set \<^verbatim>\<open>results\<close>. The
  language leaves the order of the iteration open. The loop returns when no iteration
  raises, and the set it leaves does not depend on the order. When several iterations
  raise, the model takes the exception of the least element that raises, one of the
  orders Python may take. \<open>body x\<close> is the set of elements the iteration for \<open>x\<close> adds.
\<close>

definition for_set :: "('a::linorder) set \<Rightarrow> ('a \<Rightarrow> error + 'b set) \<Rightarrow> 'b set \<Rightarrow> error + 'b set" where
  "for_set S body results =
     (if \<exists>x \<in> S. isl (body x) then Inl (projl (body (Min {x \<in> S. isl (body x)})))
      else Inr (results \<union> (\<Union>x \<in> S. projr (body x))))"

text \<open>
  \<^verbatim>\<open>row_plays\<close>. The loop over the squares of \<^verbatim>\<open>row[1:-1]\<close> has the set \<^verbatim>\<open>results\<close> and the
  cache as its state. \<^verbatim>\<open>find_prefixes(hand)\<close> is the call with the default parameters
  \<^verbatim>\<open>prefix=''\<close> and \<^verbatim>\<open>results=None\<close>; iterating over the value \<^verbatim>\<open>None\<close> raises
  \<^verbatim>\<open>TypeError\<close>. Each of the two calls of \<^verbatim>\<open>add_suffixes\<close> raises \<^verbatim>\<open>TypeError\<close>: the one
  of line 266 whenever it is reached, the one of line 272 for each prefix that is not longer
  than \<^verbatim>\<open>max_size\<close>.
\<close>

fun row_plays_loop ::
  "string set \<Rightarrow> string \<Rightarrow> square list \<Rightarrow> int list \<Rightarrow> cache \<Rightarrow> (int \<times> string) set \<Rightarrow>
   error + ((int \<times> string) set \<times> cache)" where
  "row_plays_loop P hand row [] cache results = Inr (results, cache)"
| "row_plays_loop P hand row (i # is) cache results =
     (case py_get row i of Inl e \<Rightarrow> Inl e | Inr square \<Rightarrow>
      if is_set square then
        (case legal_prefix i row of Inl e \<Rightarrow> Inl e | Inr (pre, max_size) \<Rightarrow>
         if pre \<noteq> '''' then Inl TypeError
         else
           (case find_prefixes P cache hand '''' None of
              Inl e \<Rightarrow> Inl e
            | Inr (None, cache') \<Rightarrow> Inl TypeError
            | Inr (Some prefix_set, cache') \<Rightarrow>
                (case for_set prefix_set
                        (\<lambda>pre. if int (length pre) \<le> max_size then Inl TypeError else Inr {})
                        results of
                   Inl e \<Rightarrow> Inl e
                 | Inr results' \<Rightarrow> row_plays_loop P hand row is cache' results')))
      else row_plays_loop P hand row is cache results)"

definition row_plays ::
  "string set \<Rightarrow> cache \<Rightarrow> string \<Rightarrow> square list \<Rightarrow> error + ((int \<times> string) set \<times> cache)" where
  "row_plays P cache hand row = row_plays_loop P hand row (inner row) cache {}"

text \<open>
  \<^verbatim>\<open>horizontal_plays\<close>. The loop over the rows of \<^verbatim>\<open>board[1:-1]\<close> has the set \<^verbatim>\<open>results\<close>,
  the cache and the board as its state: \<^verbatim>\<open>set_anchors\<close> writes into the rows of the board.
\<close>

type_synonym hplay = "int \<times> (int \<times> int) \<times> string"

fun horizontal_plays_loop ::
  "string set \<Rightarrow> string set \<Rightarrow> string \<Rightarrow> int list \<Rightarrow> cache \<Rightarrow> board \<Rightarrow> hplay set \<Rightarrow>
   error + (hplay set \<times> cache \<times> board)" where
  "horizontal_plays_loop W P hand [] cache board results = Inr (results, cache, board)"
| "horizontal_plays_loop W P hand (j # js) cache board results =
     (case set_anchors W j board of Inl e \<Rightarrow> Inl e | Inr board' \<Rightarrow>
      case py_get board' j of Inl e \<Rightarrow> Inl e | Inr row \<Rightarrow>
      case row_plays P cache hand row of Inl e \<Rightarrow> Inl e | Inr (plays, cache') \<Rightarrow>
      case for_set plays
             (\<lambda>(i, word). case calculate_score board' (i, j) ACROSS hand word of
                             Inl e \<Rightarrow> Inl e
                           | Inr score \<Rightarrow> Inr {(score, (i, j), word)})
             results of
        Inl e \<Rightarrow> Inl e
      | Inr results' \<Rightarrow> horizontal_plays_loop W P hand js cache' board' results')"

definition horizontal_plays ::
  "string set \<Rightarrow> string set \<Rightarrow> cache \<Rightarrow> string \<Rightarrow> board \<Rightarrow> error + (hplay set \<times> cache \<times> board)" where
  "horizontal_plays W P cache hand board =
     horizontal_plays_loop W P hand (inner board) cache board {}"

text \<open>
  \<^verbatim>\<open>all_plays\<close>. The second search runs on the list \<^verbatim>\<open>transpose\<close> builds from the board as
  the first search left it; what it writes is lost with that list.
\<close>

definition all_plays ::
  "string set \<Rightarrow> string set \<Rightarrow> cache \<Rightarrow> string \<Rightarrow> board \<Rightarrow> error + (play set \<times> cache \<times> board)" where
  "all_plays W P cache hand board =
     (case horizontal_plays W P cache hand board of
        Inl e \<Rightarrow> Inl e
      | Inr (hplays, cache1, board1) \<Rightarrow>
     (case horizontal_plays W P cache1 hand (transpose_m board1) of
        Inl e \<Rightarrow> Inl e
      | Inr (vplays, cache2, tboard) \<Rightarrow>
          Inr ((\<lambda>(score, position, word). (score, position, ACROSS, word)) ` hplays \<union>
               (\<lambda>(score, position, word). (score, (snd position, fst position), DOWN, word)) ` vplays,
               cache2, board1)))"

text \<open>
  \<^verbatim>\<open>best_play\<close>: \<^verbatim>\<open>sorted(plays, reverse=True)[0]\<close> is the greatest play in the order of
  tuples. \<open>None\<close> is \<^verbatim>\<open>NOPLAY\<close>.
\<close>

definition best_play ::
  "string set \<Rightarrow> string set \<Rightarrow> cache \<Rightarrow> string \<Rightarrow> board \<Rightarrow> error + (play option \<times> cache \<times> board)" where
  "best_play W P cache hand board =
     (case all_plays W P cache hand board of
        Inl e \<Rightarrow> Inl e
      | Inr (plays, cache', board') \<Rightarrow>
          Inr (if plays = {} then None else Some (Max plays), cache', board'))"

text \<open>
  The empty board of the size of the bonus grid (the border, the empty squares and the start
  square in the centre), and the same board with the anchor \<^verbatim>\<open>ANY\<close> on the start square.
\<close>

definition empty_board :: board where
  "empty_board =
     map (map (\<lambda>c. Ch (if c = CHR ''|'' \<or> c = CHR ''*'' then c else CHR ''.''))) BONUS"

definition start_board :: board where
  "start_board = empty_board[8 := (empty_board ! 8)[8 := ANY]]"








section \<open>The dictionary: theorems\<close>

lemma fold_readwordlist_step:
  "fold readwordlist_step ws acc =
     (fst acc \<union> set ws, snd acc \<union> (\<Union>w \<in> set ws. set (prefixes_w w)))"
  by (induction ws arbitrary: acc) (auto simp: readwordlist_step_def)

lemma readwordlist_eq:
  "readwordlist text =
     (set (split (upper text)), (\<Union>w \<in> set (split (upper text)). set (prefixes_w w)))"
  by (simp add: readwordlist_def fold_readwordlist_step)

lemma set_prefixes_w: "set (prefixes_w w) = {p. strict_prefix p w}"
proof (rule set_eqI)
  fix p
  show "p \<in> set (prefixes_w w) \<longleftrightarrow> p \<in> {p. strict_prefix p w}"
  proof
    assume "p \<in> set (prefixes_w w)"
    then obtain i where i: "i < length w" "p = take i w"
      by (auto simp: prefixes_w_def)
    then have "prefix p w" "length p < length w"
      by (simp_all add: take_is_prefix)
    then show "p \<in> {p. strict_prefix p w}"
      by (auto simp: strict_prefix_def)
  next
    assume "p \<in> {p. strict_prefix p w}"
    then have "prefix p w" "p \<noteq> w" by (auto simp: strict_prefix_def)
    then obtain s where s: "w = p @ s" "s \<noteq> []"
      by (auto simp: prefix_def)
    then have "length p < length w" "p = take (length p) w" by simp_all
    then show "p \<in> set (prefixes_w w)"
      unfolding prefixes_w_def by (metis (no_types, lifting) atLeast0LessThan imageI lessThan_iff list.set_map set_upt)
  qed
qed

text \<open>
  C9: every proper prefix of every word of the word set returned by \<^verbatim>\<open>readwordlist\<close>,
  the empty string included and the word itself excluded, is in the returned prefix set.
\<close>

theorem readwordlist_prefixes:
  "w \<in> fst (readwordlist text) \<Longrightarrow> strict_prefix p w \<Longrightarrow> p \<in> snd (readwordlist text)"
  by (auto simp: readwordlist_eq set_prefixes_w)

text \<open>
  C9 at a concrete word list: the text \<^verbatim>\<open>cab\<close> gives the word CAB, whose proper prefix CA
  is in the prefix set.
\<close>

theorem readwordlist_prefixes_witness:
  "''CAB'' \<in> fst (readwordlist ''cab'') \<and> strict_prefix ''CA'' ''CAB'' \<and>
   ''CA'' \<in> snd (readwordlist ''cab'')"
proof -
  have h1: "''CAB'' \<in> fst (readwordlist ''cab'')"
    by (simp add: readwordlist_eq upper_def upper_char_def split_def is_space_def)
  have h2: "strict_prefix ''CA'' ''CAB''" by (simp add: strict_prefix_def)
  from readwordlist_prefixes[OF h1 h2] h1 h2 show ?thesis by simp
qed

text \<open>
  C8 as stated fails: \<^verbatim>\<open>readwordlist\<close> has no test on the characters of a token. The text
  \<^verbatim>\<open>ab1 c-d\<close> puts the token AB1 in the word set and the prefix C- in the prefix set.
\<close>

theorem readwordlist_keeps_nonalpha:
  "''AB1'' \<in> fst (readwordlist ''ab1 c-d'') \<and> ''C-'' \<in> snd (readwordlist ''ab1 c-d'')"
  by (simp add: readwordlist_eq upper_def upper_char_def split_def is_space_def set_prefixes_w
        strict_prefix_def)

text \<open>
  C8, amended: \<^verbatim>\<open>readwordlist\<close> keeps every whitespace-separated token of the upper-cased
  text, alphabetic or not. The word set is exactly the set of tokens and the prefix set is
  exactly the set of their proper prefixes; no token makes the construction fail (the
  function is total).
\<close>

theorem readwordlist_all_tokens:
  "fst (readwordlist text) = set (split (upper text)) \<and>
   snd (readwordlist text) = (\<Union>w \<in> set (split (upper text)). {p. strict_prefix p w})"
  by (simp add: readwordlist_eq set_prefixes_w)

section \<open>Transposition: theorems\<close>

lemma Min_length_rect:
  assumes "rectangular b" "b \<noteq> []"
  shows "Min (length ` set b) = length (hd b)"
proof -
  have "length ` set b = {length (hd b)}"
    using assms by (cases b) (auto simp: rectangular_def)
  then show ?thesis by simp
qed

lemma transpose_m_rect:
  assumes "rectangular b" "b \<noteq> []"
  shows "transpose_m b = map (\<lambda>k. map (\<lambda>row. row ! k) b) [0..<length (hd b)]"
  using assms by (simp add: transpose_m_def Min_length_rect)

lemma transpose_m_involution_aux:
  assumes r: "rectangular b" and ne: "[] \<notin> set b"
  shows "transpose_m (transpose_m b) = b"
proof (cases "b = []")
  case True
  then show ?thesis by (simp add: transpose_m_def)
next
  case False
  define n where "n = length b"
  define k where "k = length (hd b)"
  have n0: "0 < n" using False by (simp add: n_def)
  have "hd b \<in> set b" using False by simp
  then have k0: "0 < k" using ne by (auto simp: k_def)
  have len: "length row = k" if "row \<in> set b" for row
    using r that by (simp add: rectangular_def k_def)
  let ?T = "transpose_m b"
  have T: "?T = map (\<lambda>c. map (\<lambda>row. row ! c) b) [0..<k]"
    using transpose_m_rect[OF r False] by (simp add: k_def)
  have Tne: "?T \<noteq> []" using k0 by (simp add: T)
  have hdT: "length (hd ?T) = n"
    using k0 by (simp add: T hd_map n_def upt_conv_Cons)
  have Trect: "rectangular ?T"
    unfolding rectangular_def hdT by (auto simp: T n_def)
  have "transpose_m ?T = map (\<lambda>j. map (\<lambda>row. row ! j) ?T) [0..<n]"
    using transpose_m_rect[OF Trect Tne] hdT by simp
  also have "\<dots> = b"
  proof (rule nth_equalityI)
    show "length (map (\<lambda>j. map (\<lambda>row. row ! j) ?T) [0..<n]) = length b"
      by (simp add: n_def)
  next
    fix j assume "j < length (map (\<lambda>j. map (\<lambda>row. row ! j) ?T) [0..<n])"
    then have j: "j < n" by simp
    then have lj: "length (b ! j) = k" using len by (simp add: n_def)
    have "map (\<lambda>row. row ! j) ?T = map (\<lambda>c. b ! j ! c) [0..<k]"
      using j by (simp add: T n_def)
    also have "\<dots> = b ! j"
      using lj map_nth[of "b ! j"] by simp
    finally show "map (\<lambda>j. map (\<lambda>row. row ! j) ?T) [0..<n] ! j = b ! j"
      using j by simp
  qed
  finally show ?thesis .
qed

section \<open>\<^verbatim>\<open>make_play\<close>: theorems\<close>

lemma set2_get2:
  assumes "0 \<le> i" "0 \<le> j" "set2 b j i v = Inr b'" "0 \<le> x" "0 \<le> y"
  shows "get2 b' y x = (if x = i \<and> y = j then Inr v else get2 b y x)"
  using assms
  by (auto simp: set2_def get2_def py_get_def py_set_def Let_def nth_list_update
           split: if_splits sum.splits)

lemma set2_Inr_iff:
  assumes "0 \<le> i" "0 \<le> j"
  shows "(\<exists>b'. set2 b j i v = Inr b') \<longleftrightarrow> (\<exists>sq. get2 b j i = Inr sq)"
  using assms
  by (auto simp: set2_def get2_def py_get_def py_set_def Let_def split: if_splits sum.splits)

lemma make_play_loop_frame:
  assumes "make_play_loop word i j di dj board = Inr board'"
    and "0 \<le> i" "0 \<le> j" "0 \<le> di" "0 \<le> dj" "0 \<le> x" "0 \<le> y"
    and "\<not> (\<exists>k < length word. x = i + int k * di \<and> y = j + int k * dj)"
  shows "get2 board' y x = get2 board y x"
  using assms
proof (induction word arbitrary: i j board)
  case Nil
  then show ?case by simp
next
  case (Cons l w)
  from Cons.prems(1) obtain b1 where b1: "set2 board j i (Ch l) = Inr b1"
    and rest: "make_play_loop w (i + di) (j + dj) di dj b1 = Inr board'"
    by (auto split: sum.splits)
  have notfirst: "\<not> (x = i \<and> y = j)"
    using Cons.prems(8) by (auto dest: spec[of _ 0])
  have "\<not> (\<exists>k < length w. x = (i + di) + int k * di \<and> y = (j + dj) + int k * dj)"
  proof
    assume "\<exists>k < length w. x = (i + di) + int k * di \<and> y = (j + dj) + int k * dj"
    then obtain k where k: "k < length w" "x = (i + di) + int k * di" "y = (j + dj) + int k * dj"
      by blast
    then have "Suc k < length (l # w)" "x = i + int (Suc k) * di" "y = j + int (Suc k) * dj"
      by (simp_all add: algebra_simps)
    with Cons.prems(8) show False by blast
  qed
  then have "get2 board' y x = get2 b1 y x"
    using Cons.IH[OF rest] Cons.prems by simp
  also have "\<dots> = get2 board y x"
    using set2_get2[OF Cons.prems(2,3) b1 Cons.prems(6,7)] notfirst by simp
  finally show ?case .
qed

lemma set2_shape:
  assumes "set2 b j i v = Inr b'"
  shows "length b' = length b \<and> map length b' = map length b"
  using assms
  by (auto simp: set2_def py_get_def py_set_def Let_def map_update list_update_same_conv
           split: if_splits sum.splits)

lemma on_board_get2: "on_board b i j \<Longrightarrow> get2 b j i = Inr (b ! nat j ! nat i)"
  by (auto simp: on_board_def get2_def py_get_def Let_def)

lemma on_board_set2:
  "on_board b i j \<Longrightarrow> set2 b j i v = Inr (b[nat j := (b ! nat j)[nat i := v]])"
  by (auto simp: on_board_def set2_def py_get_def py_set_def Let_def)

lemma on_board_shape: "map length b' = map length b \<Longrightarrow> on_board b' i j = on_board b i j"
proof -
  assume a: "map length b' = map length b"
  then have l: "length b' = length b" by (rule map_eq_imp_length_eq)
  have "length (b' ! n) = length (b ! n)" if "n < length b" for n
    using that a l by (metis nth_map)
  then show ?thesis
    unfolding on_board_def using l by (cases "0 \<le> j \<and> j < int (length b)") auto
qed

lemma make_play_loop_written:
  assumes "\<forall>k < length word. on_board board (i + int k * di) (j + int k * dj)"
    and "0 \<le> di" "0 \<le> dj" "(di, dj) \<noteq> (0, 0)"
  shows "\<exists>board'. make_play_loop word i j di dj board = Inr board' \<and>
           map length board' = map length board \<and>
           (\<forall>k < length word. get2 board' (j + int k * dj) (i + int k * di) = Inr (Ch (word ! k)))"
  using assms
proof (induction word arbitrary: i j board)
  case Nil
  then show ?case by simp
next
  case (Cons l w)
  have ob0: "on_board board i j" using Cons.prems(1) by (auto dest: spec[of _ 0])
  then have ij: "0 \<le> i" "0 \<le> j" by (auto simp: on_board_def)
  from ob0 obtain b1 where b1: "set2 board j i (Ch l) = Inr b1"
    by (simp add: on_board_set2)
  have sh1: "map length b1 = map length board" using set2_shape[OF b1] by simp
  have "\<forall>k < length w. on_board b1 ((i + di) + int k * di) ((j + dj) + int k * dj)"
  proof (intro allI impI)
    fix k assume "k < length w"
    then have "on_board board (i + int (Suc k) * di) (j + int (Suc k) * dj)"
      using Cons.prems(1) by (metis Suc_less_eq length_Cons)
    then show "on_board b1 ((i + di) + int k * di) ((j + dj) + int k * dj)"
      by (simp add: on_board_shape[OF sh1] algebra_simps)
  qed
  from Cons.IH[OF this Cons.prems(2,3,4)] obtain b2 where
    b2: "make_play_loop w (i + di) (j + dj) di dj b1 = Inr b2"
    and sh2: "map length b2 = map length b1"
    and wr: "\<forall>k < length w. get2 b2 (j + dj + int k * dj) (i + di + int k * di) = Inr (Ch (w ! k))"
    by blast
  have first: "get2 b2 j i = Inr (Ch l)"
  proof -
    have "\<not> (\<exists>k < length w. i = (i + di) + int k * di \<and> j = (j + dj) + int k * dj)"
    proof
      assume "\<exists>k < length w. i = (i + di) + int k * di \<and> j = (j + dj) + int k * dj"
      then obtain k where "(1 + int k) * di = 0" "(1 + int k) * dj = 0"
        by (auto simp: algebra_simps)
      then have "di = 0" "dj = 0" by auto
      with Cons.prems(4) show False by simp
    qed
    then have "get2 b2 j i = get2 b1 j i"
      using make_play_loop_frame[OF b2 _ _ Cons.prems(2,3) ij] ij Cons.prems(2,3) by simp
    also have "\<dots> = Inr (Ch l)" using set2_get2[OF ij b1 ij] by simp
    finally show ?thesis .
  qed
  have "\<forall>k < length (l # w). get2 b2 (j + int k * dj) (i + int k * di) = Inr (Ch ((l # w) ! k))"
  proof (intro allI impI)
    fix k assume k: "k < length (l # w)"
    show "get2 b2 (j + int k * dj) (i + int k * di) = Inr (Ch ((l # w) ! k))"
    proof (cases k)
      case 0
      then show ?thesis using first by simp
    next
      case (Suc m)
      then have "m < length w" using k by simp
      then show ?thesis using wr Suc by (simp add: algebra_simps)
    qed
  qed
  then show ?case using b1 b2 sh1 sh2 by simp
qed

text \<open>
  C5 as stated fails: \<^verbatim>\<open>make_play\<close> has no test on what a target square holds. Playing B
  on the square that holds A succeeds and replaces the A.
\<close>

theorem make_play_replaces_letter:
  "make_play (0, (1, 1), ACROSS, ''B'') small_board =
     Inr [[Ch CHR ''|'', Ch CHR ''|'', Ch CHR ''|''],
          [Ch CHR ''|'', Ch CHR ''B'', Ch CHR ''|''],
          [Ch CHR ''|'', Ch CHR ''|'', Ch CHR ''|'']]"
  by (simp add: ACROSS_def small_board_def set2_def py_get_def py_set_def)

text \<open>
  C5, amended: \<^verbatim>\<open>make_play\<close> writes the word letter by letter from the position, stepping
  by the direction, and overwrites whatever the target squares hold. When every target
  coordinate is a square of the board and the direction steps forward (as ACROSS and DOWN
  do), it succeeds and the k-th target square holds the k-th letter of the word.
\<close>

theorem make_play_overwrites:
  assumes "\<forall>k < length word. on_board board (i + int k * di) (j + int k * dj)"
    and "0 \<le> di" "0 \<le> dj" "(di, dj) \<noteq> (0, 0)"
  shows "\<exists>board'. make_play (score, (i, j), (di, dj), word) board = Inr board' \<and>
           (\<forall>k < length word.
              get2 board' (j + int k * dj) (i + int k * di) = Inr (Ch (word ! k)))"
  using make_play_loop_written[OF assms] by auto

theorem make_play_overwrites_witness:
  "on_board small_board 1 1 \<and> get2 small_board 1 1 = Inr (Ch CHR ''A'') \<and>
   (\<exists>board'. make_play (0, (1, 1), (1, 0), ''B'') small_board = Inr board' \<and>
      get2 board' 1 1 = Inr (Ch CHR ''B''))"
proof -
  have o: "on_board small_board 1 1"
    by (simp add: on_board_def small_board_def)
  then have h: "\<forall>k < length ''B''. on_board small_board (1 + int k * 1) (1 + int k * 0)"
    by simp
  have g: "get2 small_board 1 1 = Inr (Ch CHR ''A'')"
    by (simp add: get2_def py_get_def small_board_def)
  from make_play_overwrites[OF h, of 0] obtain board' where
    "make_play (0, (1, 1), (1, 0), ''B'') small_board = Inr board'"
    "get2 board' 1 1 = Inr (Ch CHR ''B'')"
    by auto
  with o g show ?thesis by blast
qed

text \<open>
  C10: \<^verbatim>\<open>make_play\<close> changes only the squares on the path of the play. The position of a
  play is a board coordinate and its direction is ACROSS or DOWN, so the position and the
  steps are not negative; every coordinate \<open>(x, y)\<close> that is not of the form
  \<open>(i + k * di, j + k * dj)\<close> with \<open>k < len(word)\<close> reads the same before and after.
\<close>

theorem make_play_frame:
  assumes "make_play (score, (i, j), (di, dj), word) board = Inr board'"
    and "0 \<le> i" "0 \<le> j" "0 \<le> di" "0 \<le> dj" "0 \<le> x" "0 \<le> y"
    and "\<not> (\<exists>k < length word. x = i + int k * di \<and> y = j + int k * dj)"
  shows "get2 board' y x = get2 board y x"
  using make_play_loop_frame[of word i j di dj board board' x y] assms by simp

theorem make_play_frame_witness:
  "make_play (0, (1, 1), (1, 0), ''B'') small_board =
     Inr [[Ch CHR ''|'', Ch CHR ''|'', Ch CHR ''|''],
          [Ch CHR ''|'', Ch CHR ''B'', Ch CHR ''|''],
          [Ch CHR ''|'', Ch CHR ''|'', Ch CHR ''|'']] \<and>
   \<not> (\<exists>k < length ''B''. (2::int) = 1 + int k * 1 \<and> (1::int) = 1 + int k * 0) \<and>
   get2 [[Ch CHR ''|'', Ch CHR ''|'', Ch CHR ''|''],
         [Ch CHR ''|'', Ch CHR ''B'', Ch CHR ''|''],
         [Ch CHR ''|'', Ch CHR ''|'', Ch CHR ''|'']] 1 2 = get2 small_board 1 2"
proof -
  have h: "make_play (0, (1, 1), (1, 0), ''B'') small_board =
     Inr [[Ch CHR ''|'', Ch CHR ''|'', Ch CHR ''|''],
          [Ch CHR ''|'', Ch CHR ''B'', Ch CHR ''|''],
          [Ch CHR ''|'', Ch CHR ''|'', Ch CHR ''|'']]"
    by (simp add: small_board_def set2_def py_get_def py_set_def)
  have n: "\<not> (\<exists>k < length ''B''. (2::int) = 1 + int k * 1 \<and> (1::int) = 1 + int k * 0)"
    by simp
  from make_play_frame[OF h _ _ _ _ _ _ n] h n show ?thesis by simp
qed

section \<open>Scoring: theorems\<close>

lemma WWF_rows:
  "WWF = [''|||||||||||||||||'', ''|...3..;.;..3...|'', ''|..:..2...2..:..|'',
  ''|.:..:.....:..:.|'', ''|3..;...2...;..3|'', ''|..:...:.:...:..|'',
  ''|.2...3...3...2.|'', ''|;...:.....:...;|'', ''|...:...*...:...|'',
  ''|;...:.....:...;|'', ''|.2...3...3...2.|'', ''|..:...:.:...:..|'',
  ''|3..;...2...;..3|'', ''|.:..:.....:..:.|'', ''|..:..2...2..:..|'',
  ''|...3..;.;..3...|'', ''|||||||||||||||||'']"
  by (simp add: WWF_def bonus_template_def mirror_def split_def is_space_def)

lemmas eval_board = inner_def neighbors_def get2_def py_get_def set2_def py_set_def
  find_cross_word_def is_letter_def LETTERS_def is_empty_def is_set_def replace_dot_def
  the_char_def Let_def upto.simps

lemmas eval_score = calculate_score_def score_with_def cross_word_score_def ACROSS_def DOWN_def
  POINTS_def TW_def DW_def TL_def DL_def BONUS_def WWF_rows

lemma set_anchors_empty_board: "set_anchors W 8 empty_board = Inr start_board"
  by (simp add: set_anchors_def start_board_def empty_board_def BONUS_def WWF_rows eval_board)

lemma score_CAB_6: "calculate_score start_board (6, 8) ACROSS ''CAB'' ''CAB'' = Inr 14"
  by (simp add: start_board_def empty_board_def eval_board eval_score)

lemma score_CAB_7: "calculate_score start_board (7, 8) ACROSS ''CAB'' ''CAB'' = Inr 14"
  by (simp add: start_board_def empty_board_def eval_board eval_score)

lemma score_CAB_8: "calculate_score start_board (8, 8) ACROSS ''CAB'' ''CAB'' = Inr 14"
  by (simp add: start_board_def empty_board_def eval_board eval_score)

text \<open>
  C2: on the empty board, \<^verbatim>\<open>set_anchors\<close> makes the start square in the centre an anchor
  (whatever the dictionary), and each of the three across placements of CAB through the
  centre, at columns 6-8, 7-9 and 8-10 of row 8, scores \<open>(3 + 1 + 3) * 2 = 14\<close>: the bonus grid
  has no letter bonus on columns 6 to 10 of row 8, the star in the centre doubles the word,
  and C, A and B are worth 3, 1 and 3.
\<close>

theorem score_CAB_centre:
  "set_anchors W 8 empty_board = Inr start_board \<and>
   calculate_score start_board (6, 8) ACROSS ''CAB'' ''CAB'' = Inr 14 \<and>
   calculate_score start_board (7, 8) ACROSS ''CAB'' ''CAB'' = Inr 14 \<and>
   calculate_score start_board (8, 8) ACROSS ''CAB'' ''CAB'' = Inr 14 \<and>
   map (\<lambda>i. get2 BONUS 8 i) [6, 7, 8, 9, 10] =
     [Inr CHR ''.'', Inr CHR ''.'', Inr CHR ''*'', Inr CHR ''.'', Inr CHR ''.''] \<and>
   map POINTS ''CAB'' = [Some 3, Some 1, Some 3]"
  using set_anchors_empty_board score_CAB_6 score_CAB_7 score_CAB_8
  by (simp add: BONUS_def WWF_rows get2_def py_get_def POINTS_def)

section \<open>Transposition and the bonus grid: theorems\<close>

lemma transpose_m_shape:
  assumes r: "rectangular b" and ne: "b \<noteq> []"
  shows "length (transpose_m b) = length (hd b)"
    and "\<And>row. row \<in> set (transpose_m b) \<Longrightarrow> length row = length b"
    and "\<And>i j. i < length (hd b) \<Longrightarrow> j < length b \<Longrightarrow> transpose_m b ! i ! j = b ! j ! i"
  using transpose_m_rect[OF r ne] by auto

lemma get2_transpose_m:
  assumes "rectangular b" "i < length b" "j < length (hd b)"
  shows "get2 (transpose_m b) (int j) (int i) = Inr (b ! i ! j)"
proof -
  from assms(2) have ne: "b \<noteq> []" by auto
  note sh = transpose_m_shape[OF assms(1) ne]
  from sh(1) assms(3) have j: "j < length (transpose_m b)" by simp
  then have "transpose_m b ! j \<in> set (transpose_m b)" by simp
  from sh(2)[OF this] assms(2) have i: "i < length (transpose_m b ! j)" by simp
  from j i sh(3)[OF assms(3) assms(2)] show ?thesis
    by (simp add: get2_def py_get_def)
qed

lemma empty_board_shape:
  "rectangular empty_board \<and> length empty_board = 17 \<and> length (hd empty_board) = 17"
  by (simp add: rectangular_def empty_board_def BONUS_def WWF_rows)

lemma score_down_empty_board: "calculate_score empty_board (8, 4) DOWN ''AT'' ''AT'' = Inr 4"
  by (simp add: empty_board_def eval_board eval_score)

lemma score_across_transposed:
  "calculate_score (transpose_m empty_board) (4, 8) ACROSS ''AT'' ''AT'' = Inr 3"
proof -
  have e4: "empty_board ! 4 ! 8 = Ch CHR ''.''" and e5: "empty_board ! 5 ! 8 = Ch CHR ''.''"
    by (simp_all add: empty_board_def BONUS_def WWF_rows)
  have t4: "get2 (transpose_m empty_board) 8 4 = Inr (Ch CHR ''.'')"
    using get2_transpose_m[of empty_board 4 8] empty_board_shape e4 by simp
  have t5: "get2 (transpose_m empty_board) 8 5 = Inr (Ch CHR ''.'')"
    using get2_transpose_m[of empty_board 5 8] empty_board_shape e5 by simp
  have b4: "get2 BONUS 8 4 = Inr CHR '':''" and b5: "get2 BONUS 8 5 = Inr CHR ''.''"
    by (simp_all add: BONUS_def WWF_rows get2_def py_get_def)
  show ?thesis
    by (simp add: calculate_score_def score_with_def ACROSS_def DOWN_def POINTS_def
        TW_def DW_def TL_def DL_def t4 t5 b4 b5 is_letter_def LETTERS_def is_set_def)
qed

text \<open>
  C7, as claimed, does not hold. The grid of two rows without columns is rectangular, and
  \<^verbatim>\<open>zip\<close> maps it to the empty list, which \<^verbatim>\<open>transpose\<close> leaves as it is. And no application
  swaps the bonus grid: \<^verbatim>\<open>transpose\<close> takes the board only, and \<^verbatim>\<open>calculate_score\<close> reads the
  global \<^verbatim>\<open>BONUS[j][i]\<close> at the coordinates of the board it is given, where
  \<^verbatim>\<open>BONUS[4][8]\<close> is \<^verbatim>\<open>'2'\<close> and \<^verbatim>\<open>BONUS[8][4]\<close> is \<^verbatim>\<open>':'\<close>. The word AT down from column 8
  of row 4 of the empty board scores 4 (the word is doubled); the same placement on the
  transposed board, across from column 4 of row 8, scores 3 (the letter A is doubled).
\<close>

theorem transpose_leaves_bonus:
  "rectangular [[], [] :: square list] \<and>
   transpose_m (transpose_m [[], [] :: square list]) = [] \<and>
   get2 BONUS 4 8 = Inr CHR ''2'' \<and> get2 BONUS 8 4 = Inr CHR '':'' \<and>
   calculate_score empty_board (8, 4) DOWN ''AT'' ''AT'' = Inr 4 \<and>
   calculate_score (transpose_m empty_board) (4, 8) ACROSS ''AT'' ''AT'' = Inr 3"
proof (intro conjI)
  show "rectangular [[], [] :: square list]" by (simp add: rectangular_def)
  show "transpose_m (transpose_m [[], [] :: square list]) = []" by (simp add: transpose_m_def)
  show "get2 BONUS 4 8 = Inr CHR ''2''" by (simp add: BONUS_def WWF_rows get2_def py_get_def)
  show "get2 BONUS 8 4 = Inr CHR '':''" by (simp add: BONUS_def WWF_rows get2_def py_get_def)
  show "calculate_score empty_board (8, 4) DOWN ''AT'' ''AT'' = Inr 4"
    by (rule score_down_empty_board)
  show "calculate_score (transpose_m empty_board) (4, 8) ACROSS ''AT'' ''AT'' = Inr 3"
    by (rule score_across_transposed)
qed

text \<open>
  C7, amended: for every rectangular board \<open>b\<close> (all rows of one length) without an empty
  row, \<^verbatim>\<open>transpose(b)\<close> has one row for each column of \<open>b\<close>, each row of \<^verbatim>\<open>transpose(b)\<close> has
  one square for each row of \<open>b\<close>, \<^verbatim>\<open>transpose(b)[i][j]\<close> is \<^verbatim>\<open>b[j][i]\<close>, and
  \<^verbatim>\<open>transpose(transpose(b))\<close> is \<open>b\<close>. The bonus grid is no argument of \<^verbatim>\<open>transpose\<close>.
\<close>

theorem transpose_swaps:
  assumes "rectangular b" "[] \<notin> set b"
  shows "transpose_m (transpose_m b) = b \<and>
         length (transpose_m b) = (if b = [] then 0 else length (hd b)) \<and>
         (\<forall>row \<in> set (transpose_m b). length row = length b) \<and>
         (\<forall>i < length (transpose_m b). \<forall>j < length b. transpose_m b ! i ! j = b ! j ! i)"
proof (cases "b = []")
  case True
  then show ?thesis by (simp add: transpose_m_def)
next
  case False
  from transpose_m_shape[OF assms(1) False] transpose_m_involution_aux[OF assms] False
  show ?thesis by simp
qed

theorem transpose_swaps_witness:
  "rectangular [[1, 2, 3], [4, 5, 6 :: nat]] \<and> [] \<notin> set [[1, 2, 3], [4, 5, 6 :: nat]] \<and>
   transpose_m [[1, 2, 3], [4, 5, 6 :: nat]] = [[1, 4], [2, 5], [3, 6]] \<and>
   transpose_m (transpose_m [[1, 2, 3], [4, 5, 6 :: nat]]) = [[1, 2, 3], [4, 5, 6]] \<and>
   length (transpose_m [[1, 2, 3], [4, 5, 6 :: nat]]) = 3 \<and>
   transpose_m [[1, 2, 3], [4, 5, 6 :: nat]] ! 2 ! 1 = [[1, 2, 3], [4, 5, 6 :: nat]] ! 1 ! 2"
proof -
  have h1: "rectangular [[1, 2, 3], [4, 5, 6 :: nat]]" by (simp add: rectangular_def)
  have h2: "[] \<notin> set [[1, 2, 3], [4, 5, 6 :: nat]]" by simp
  have h3: "transpose_m [[1, 2, 3], [4, 5, 6 :: nat]] = [[1, 4], [2, 5], [3, 6]]"
    by (simp add: transpose_m_def upt_conv_Cons)
  from transpose_swaps[OF h1 h2]
  have inv: "transpose_m (transpose_m [[1, 2, 3], [4, 5, 6 :: nat]]) = [[1, 2, 3], [4, 5, 6]]"
    and len: "length (transpose_m [[1, 2, 3], [4, 5, 6 :: nat]]) = 3"
    and swap: "\<forall>i < length (transpose_m [[1, 2, 3], [4, 5, 6 :: nat]]). \<forall>j < 2.
                 transpose_m [[1, 2, 3], [4, 5, 6 :: nat]] ! i ! j = [[1, 2, 3], [4, 5, 6]] ! j ! i"
    by simp_all
  from swap len have "transpose_m [[1, 2, 3], [4, 5, 6 :: nat]] ! 2 ! 1 = [[1, 2, 3], [4, 5, 6 :: nat]] ! 1 ! 2"
    by simp
  with h1 h2 h3 inv len show ?thesis by simp
qed

section \<open>The search and the board: theorems\<close>

subsection \<open>The search returns no play\<close>

lemma for_set_raise_or_nothing:
  assumes "for_set S (\<lambda>x. if c x then Inl e else Inr {}) results = Inr r"
  shows "r = results \<and> (\<forall>x \<in> S. \<not> c x)"
proof -
  have no: "\<not> (\<exists>x \<in> S. isl (if c x then Inl e else Inr ({} :: 'b set)))"
    using assms by (auto simp: for_set_def split: if_splits)
  then have all: "\<forall>x \<in> S. \<not> c x" by auto
  then have "(\<Union>x \<in> S. projr (if c x then Inl e else Inr ({} :: 'b set))) = {}" by auto
  then show ?thesis using assms no all by (simp add: for_set_def split: if_splits)
qed

text \<open>What a step of the loop of \<^verbatim>\<open>row_plays\<close> that returns has done at an anchor.\<close>

lemma row_plays_loop_anchor:
  assumes run: "row_plays_loop P hand row (i # is) cache results = Inr (r, c)"
    and sq: "py_get row i = Inr square" and s: "is_set square"
  shows "\<exists>m S cache' results'.
           legal_prefix i row = Inr ([], m) \<and>
           find_prefixes P cache hand [] None = Inr (Some S, cache') \<and>
           for_set S (\<lambda>pre. if int (length pre) \<le> m then Inl TypeError else Inr {}) results
             = Inr results' \<and>
           row_plays_loop P hand row is cache' results' = Inr (r, c)"
proof -
  from run sq s obtain pre m where lp: "legal_prefix i row = Inr (pre, m)"
    by (auto split: sum.splits)
  with run sq s have pre: "pre = []"
    by (auto split: if_splits)
  from run sq s lp pre obtain S cache' where
    fp: "find_prefixes P cache hand [] None = Inr (Some S, cache')"
    by (auto split: sum.splits option.splits)
  define body :: "string \<Rightarrow> error + (int \<times> string) set"
    where "body = (\<lambda>pre. if int (length pre) \<le> m then Inl TypeError else Inr {})"
  from run sq s lp pre fp have
    "(case for_set S body results of
        Inl e \<Rightarrow> Inl e
      | Inr results' \<Rightarrow> row_plays_loop P hand row is cache' results') = Inr (r, c)"
    by (simp add: body_def)
  then obtain results' where "for_set S body results = Inr results'"
    and "row_plays_loop P hand row is cache' results' = Inr (r, c)"
    by (cases "for_set S body results") auto
  with lp pre fp show ?thesis by (auto simp: body_def)
qed

lemma row_plays_loop_results:
  "row_plays_loop P hand row is cache results = Inr (r, c) \<Longrightarrow> r = results"
proof (induction "is" arbitrary: cache results)
  case Nil
  then show ?case by simp
next
  case (Cons i "is")
  from Cons.prems obtain square where sq: "py_get row i = Inr square"
    by (auto split: sum.splits)
  show ?case
  proof (cases "is_set square")
    case False
    then show ?thesis using Cons.prems sq Cons.IH by simp
  next
    case True
    from row_plays_loop_anchor[OF Cons.prems sq True] obtain m and S :: "string set"
      and cache' results' where
      fs: "for_set S (\<lambda>pre. if int (length pre) \<le> m then Inl TypeError else Inr {}) results
             = Inr results'"
      and rest: "row_plays_loop P hand row is cache' results' = Inr (r, c)"
      by blast
    from for_set_raise_or_nothing[OF fs] have "results' = results" by simp
    then show ?thesis using Cons.IH[OF rest] by simp
  qed
qed

lemma for_set_empty: "for_set {} body results = Inr results"
  by (simp add: for_set_def)

lemma horizontal_plays_loop_results:
  "horizontal_plays_loop W P hand js cache b results = Inr (r, c, b') \<Longrightarrow> r = results"
proof (induction js arbitrary: cache b results)
  case Nil
  then show ?case by simp
next
  case (Cons j js)
  from Cons.prems obtain b1 row plays c1 where
    rp: "row_plays P cache hand row = Inr (plays, c1)"
    and rest0: "(case for_set plays
             (\<lambda>(i, word). case calculate_score b1 (i, j) ACROSS hand word of
                             Inl e \<Rightarrow> Inl e
                           | Inr score \<Rightarrow> Inr {(score, (i, j), word)})
             results of
        Inl e \<Rightarrow> Inl e
      | Inr results' \<Rightarrow> horizontal_plays_loop W P hand js c1 b1 results') = Inr (r, c, b')"
    by (auto split: sum.splits prod.splits)
  from rp have "plays = {}"
    unfolding row_plays_def by (rule row_plays_loop_results)
  with rest0 have "horizontal_plays_loop W P hand js c1 b1 results = Inr (r, c, b')"
    by (simp add: for_set_empty)
  then show ?case by (rule Cons.IH)
qed

lemma all_plays_results:
  "all_plays W P cache hand b = Inr (plays, c, b') \<Longrightarrow> plays = {}"
  by (auto simp: all_plays_def horizontal_plays_def split: sum.splits prod.splits
      dest: horizontal_plays_loop_results)

lemma best_play_returns_no_play:
  "best_play W P cache hand b = Inr (p, c, b') \<Longrightarrow> p = None"
  by (auto simp: best_play_def split: sum.splits prod.splits dest: all_plays_results)

subsection \<open>What the search writes\<close>












subsection \<open>With a dictionary that is not empty, a search that returns has written nothing\<close>








lemma for_set_raises:
  assumes "x \<in> S" "isl (body x)"
  shows "isl (for_set S body results)"
  using assms by (auto simp: for_set_def)




subsection \<open>Runs of the search\<close>






section \<open>The hand and the character \<^verbatim>\<open>'_'\<close>: theorems\<close>











end
